theory Spec2Isabelle
  imports Main
begin

section \<open>GoTTY application layer (app/app.go)\<close>

text \<open>
  A shallow embedding of \<^verbatim>\<open>src/app/app.go\<close>. Go strings are byte sequences and are
  modelled as \<^typ>\<open>string\<close>. A run-time panic of the Go program is a value \<open>Inl p\<close> of a
  sum type, a returned \<^verbatim>\<open>error\<close> is an \<open>error option\<close> (\<open>None\<close> is Go's \<^verbatim>\<open>nil\<close>).
  Calls to \<^verbatim>\<open>log.Printf\<close> write to the process log only and are left out.
\<close>

subsection \<open>Errors, panics and the environment of the process\<close>

datatype panic =
    SliceBoundsOutOfRange
  | MakeSliceLenOutOfRange
  | NilPointerDereference
  | IndexOutOfRange

datatype errno = ENOENT | EACCES | EISDIR | EIO

datatype kind = KBool | KInt | KFloat64 | KString | KSlice | KMap

datatype error =
    PathError string string errno
  | DecodeError string
  | WrongKind kind kind
  | ErrorString string

text \<open>
  The values that \<^verbatim>\<open>hcl.Decode\<close> stores in a \<^verbatim>\<open>map[string]interface{}\<close>. A float is
  kept as its literal text: only its kind matters here.
\<close>

datatype hcl_value =
    VBool bool
  | VInt int
  | VFloat string
  | VString string
  | VList "hcl_value list"
  | VObject "(string \<times> hcl_value) list"

text \<open>
  Requests and response writers of \<^verbatim>\<open>net/http\<close>. A header maps a canonical key to
  its list of values; the status is \<open>None\<close> until the header has been written.
\<close>

record request =
  reqMethod :: string
  reqPath :: string
  reqHeader :: "string \<rightharpoonup> string list"
  remoteAddr :: string

record responseWriter =
  respHeader :: "string \<rightharpoonup> string list"
  respStatus :: "nat option"
  respBody :: string

type_synonym handler = "responseWriter \<Rightarrow> request \<Rightarrow> responseWriter"

text \<open>
  The two registrations of \<^verbatim>\<open>Run\<close>: the static file server behind
  \<^verbatim>\<open>http.StripPrefix\<close> with the given prefix, and the websocket handler.
\<close>

datatype route = StaticFiles string | WebSocket

text \<open>
  What the program reads from outside \<^verbatim>\<open>app.go\<close>: the environment variable \<^verbatim>\<open>HOME\<close>
  (empty when unset), the file system as seen by \<^verbatim>\<open>os.Stat\<close> and \<^verbatim>\<open>ioutil.ReadFile\<close>
  (the latter returns the bytes read so far together with its error), the HCL decoder
  (the contents of the target map after the call, and the error it returns), the
  successive results of \<^verbatim>\<open>rand.Int(rand.Reader, 36)\<close> (\<open>None\<close> when the reader fails and
  the result is \<^verbatim>\<open>nil\<close>), the Unicode case mapping that \<^verbatim>\<open>strings.ToLower\<close> applies to
  strings that are not pure ASCII, and the dispatch of \<^verbatim>\<open>http.ServeMux\<close> to the
  registered handlers.
\<close>

record env =
  home :: string
  stat :: "string \<Rightarrow> errno option"
  readFile :: "string \<Rightarrow> string \<times> errno option"
  hclDecode :: "string \<Rightarrow> (string \<rightharpoonup> hcl_value) \<times> error option"
  randInt :: "nat \<Rightarrow> int option"
  unicodeToLower :: "string \<Rightarrow> string"
  muxServe :: "(string \<times> route) list \<Rightarrow> handler"

definition os_Stat :: "env \<Rightarrow> string \<Rightarrow> error option" where
  "os_Stat e p = map_option (PathError ''stat'' p) (stat e p)"

fun os_IsNotExist :: "error option \<Rightarrow> bool" where
  "os_IsNotExist (Some (PathError _ _ ENOENT)) = True"
| "os_IsNotExist _ = False"

definition ioutil_ReadFile :: "env \<Rightarrow> string \<Rightarrow> string \<times> error option" where
  "ioutil_ReadFile e p =
     (case readFile e p of (bytes, err) \<Rightarrow> (bytes, map_option (PathError ''open'' p) err))"

subsection \<open>Home-directory expansion\<close>

text \<open>
  \<^verbatim>\<open>path[0:2]\<close> panics when the string has fewer than two bytes; \<^verbatim>\<open>path[1:]\<close> is then
  in range.
\<close>

definition expandHomeDir :: "env \<Rightarrow> string \<Rightarrow> panic + string" where
  "expandHomeDir e path =
     (if length path < 2 then Inl SliceBoundsOutOfRange
      else if take 2 path = ''~/'' then Inr (home e @ drop 1 path)
      else Inr path)"

subsection \<open>Library functions on strings\<close>

text \<open>
  \<^verbatim>\<open>strings.ToLower\<close>: on a string of ASCII bytes the letters \<^verbatim>\<open>A\<close> to \<^verbatim>\<open>Z\<close> are
  mapped to \<^verbatim>\<open>a\<close> to \<^verbatim>\<open>z\<close>; any other string goes through the Unicode tables.
\<close>

definition isASCII :: "char \<Rightarrow> bool" where
  "isASCII c = ((of_char c :: nat) < 128)"

definition isUpper :: "char \<Rightarrow> bool" where
  "isUpper c = (65 \<le> (of_char c :: nat) \<and> (of_char c :: nat) \<le> 90)"

definition isLower :: "char \<Rightarrow> bool" where
  "isLower c = (97 \<le> (of_char c :: nat) \<and> (of_char c :: nat) \<le> 122)"

definition isDigit :: "char \<Rightarrow> bool" where
  "isDigit c = (48 \<le> (of_char c :: nat) \<and> (of_char c :: nat) \<le> 57)"

definition lowerASCII :: "char \<Rightarrow> char" where
  "lowerASCII c = (if isUpper c then char_of ((of_char c :: nat) + 32) else c)"

definition ToLower :: "env \<Rightarrow> string \<Rightarrow> string" where
  "ToLower e s = (if list_all isASCII s then map lowerASCII s else unicodeToLower e s)"

text \<open>\<^verbatim>\<open>strings.Join(elems, sep)\<close>.\<close>

fun Join :: "string list \<Rightarrow> string \<Rightarrow> string" where
  "Join [] sep = []"
| "Join [x] sep = x"
| "Join (x # y # ys) sep = x @ sep @ Join (y # ys) sep"

text \<open>
  \<^verbatim>\<open>strings.SplitN(s, sep, 2)\<close> for a separator of one byte: the string is cut at the
  first occurrence of the separator, and is returned whole when there is none.
\<close>

fun IndexByte :: "string \<Rightarrow> char \<Rightarrow> nat option" where
  "IndexByte [] c = None"
| "IndexByte (x # xs) c = (if x = c then Some 0 else map_option Suc (IndexByte xs c))"

definition SplitN2 :: "string \<Rightarrow> char \<Rightarrow> string list" where
  "SplitN2 s sep =
     (case IndexByte s sep of
        None \<Rightarrow> [s]
      | Some m \<Rightarrow> [take m s, drop (m + 1) s])"

text \<open>
  \<^verbatim>\<open>camelcase.Split\<close> (github.com/fatih/camelcase) on ASCII identifiers: the string is
  cut into runs of one character class (lower 1, upper 2, digit 3, other 4), then the
  last letter of an upper-case run that precedes a lower-case run is moved to the front
  of that run, and empty runs are dropped.
\<close>

definition charClass :: "char \<Rightarrow> nat" where
  "charClass r = (if isLower r then 1 else if isUpper r then 2 else if isDigit r then 3 else 4)"

fun classRuns :: "nat \<Rightarrow> string list \<Rightarrow> string \<Rightarrow> string list" where
  "classRuns lastClass runes [] = runes"
| "classRuns lastClass runes (r # src) =
     classRuns (charClass r)
       (if charClass r = lastClass then butlast runes @ [last runes @ [r]]
        else runes @ [[r]])
       src"

definition moveUpper :: "string list \<Rightarrow> nat \<Rightarrow> string list" where
  "moveUpper runes i =
     (if isUpper (hd (runes ! i)) \<and> isLower (hd (runes ! (i + 1)))
      then (runes[i + 1 := last (runes ! i) # runes ! (i + 1)])[i := butlast (runes ! i)]
      else runes)"

definition camelcase_Split :: "string \<Rightarrow> string list" where
  "camelcase_Split src =
     (let runes = classRuns 0 [] src
      in filter (\<lambda>s. 0 < length s) (foldl moveUpper runes [0..<length runes - 1]))"

subsection \<open>Options\<close>

record Options =
  Address :: string
  Port :: string
  PermitWrite :: bool
  EnableBasicAuth :: bool
  Credential :: string
  EnableRandomUrl :: bool
  RandomUrlLength :: int
  ProfileFile :: string
  EnableTLS :: bool
  TLSCrtFile :: string
  TLSKeyFile :: string
  TitleFormat :: string
  EnableReconnect :: bool
  ReconnectTime :: int
  Once :: bool

definition DefaultOptions :: Options where
  "DefaultOptions = \<lparr>
     Address = '''',
     Port = ''8080'',
     PermitWrite = False,
     EnableBasicAuth = False,
     Credential = '''',
     EnableRandomUrl = False,
     RandomUrlLength = 8,
     ProfileFile = ''~/.gotty.prf'',
     EnableTLS = False,
     TLSCrtFile = ''~/.gotty.key'',
     TLSKeyFile = ''~/.gotty.crt'',
     TitleFormat = ''GoTTY - {{ .Command }} ({{ .Hostname }})'',
     EnableReconnect = False,
     ReconnectTime = 10,
     Once = False
   \<rparr>"

subsection \<open>Reflection over the options record\<close>

text \<open>
  \<^verbatim>\<open>structs.New(options)\<close> (github.com/fatih/structs): \<^verbatim>\<open>Names\<close> lists the fields in
  declaration order, \<^verbatim>\<open>FieldOk\<close> looks a field up by name, and \<^verbatim>\<open>Set\<close> refuses a value
  whose kind differs from the field's and stores it otherwise. Every field of
  \<^verbatim>\<open>Options\<close> is exported and, the record being passed by pointer, settable.
\<close>

definition fieldKinds :: "(string \<times> kind) list" where
  "fieldKinds =
     [(''Address'', KString), (''Port'', KString), (''PermitWrite'', KBool),
      (''EnableBasicAuth'', KBool), (''Credential'', KString), (''EnableRandomUrl'', KBool),
      (''RandomUrlLength'', KInt), (''ProfileFile'', KString), (''EnableTLS'', KBool),
      (''TLSCrtFile'', KString), (''TLSKeyFile'', KString), (''TitleFormat'', KString),
      (''EnableReconnect'', KBool), (''ReconnectTime'', KInt), (''Once'', KBool)]"

definition Names :: "string list" where
  "Names = map fst fieldKinds"

datatype field = Field string kind

definition FieldOk :: "string \<Rightarrow> field option" where
  "FieldOk name = map_option (Field name) (map_of fieldKinds name)"

fun kindOf :: "hcl_value \<Rightarrow> kind" where
  "kindOf (VBool _) = KBool"
| "kindOf (VInt _) = KInt"
| "kindOf (VFloat _) = KFloat64"
| "kindOf (VString _) = KString"
| "kindOf (VList _) = KSlice"
| "kindOf (VObject _) = KSlice"

definition reflect_Set :: "string \<Rightarrow> hcl_value \<Rightarrow> Options \<Rightarrow> Options" where
  "reflect_Set name val opts =
     (case val of
        VString s \<Rightarrow>
          (if name = ''Address'' then opts\<lparr>Address := s\<rparr>
           else if name = ''Port'' then opts\<lparr>Port := s\<rparr>
           else if name = ''Credential'' then opts\<lparr>Credential := s\<rparr>
           else if name = ''ProfileFile'' then opts\<lparr>ProfileFile := s\<rparr>
           else if name = ''TLSCrtFile'' then opts\<lparr>TLSCrtFile := s\<rparr>
           else if name = ''TLSKeyFile'' then opts\<lparr>TLSKeyFile := s\<rparr>
           else if name = ''TitleFormat'' then opts\<lparr>TitleFormat := s\<rparr>
           else opts)
      | VInt i \<Rightarrow>
          (if name = ''RandomUrlLength'' then opts\<lparr>RandomUrlLength := i\<rparr>
           else if name = ''ReconnectTime'' then opts\<lparr>ReconnectTime := i\<rparr>
           else opts)
      | VBool b \<Rightarrow>
          (if name = ''PermitWrite'' then opts\<lparr>PermitWrite := b\<rparr>
           else if name = ''EnableBasicAuth'' then opts\<lparr>EnableBasicAuth := b\<rparr>
           else if name = ''EnableRandomUrl'' then opts\<lparr>EnableRandomUrl := b\<rparr>
           else if name = ''EnableTLS'' then opts\<lparr>EnableTLS := b\<rparr>
           else if name = ''EnableReconnect'' then opts\<lparr>EnableReconnect := b\<rparr>
           else if name = ''Once'' then opts\<lparr>Once := b\<rparr>
           else opts)
      | _ \<Rightarrow> opts)"

fun Field_Set :: "field \<Rightarrow> hcl_value \<Rightarrow> Options \<Rightarrow> error + Options" where
  "Field_Set (Field name k) val opts =
     (if k \<noteq> kindOf val then Inl (WrongKind (kindOf val) k)
      else Inr (reflect_Set name val opts))"

text \<open>The fields of an options record as reflection shows them: by name, as values.\<close>

definition fieldValue :: "Options \<Rightarrow> string \<rightharpoonup> hcl_value" where
  "fieldValue opts = map_of
     [(''Address'', VString (Address opts)), (''Port'', VString (Port opts)),
      (''PermitWrite'', VBool (PermitWrite opts)),
      (''EnableBasicAuth'', VBool (EnableBasicAuth opts)),
      (''Credential'', VString (Credential opts)),
      (''EnableRandomUrl'', VBool (EnableRandomUrl opts)),
      (''RandomUrlLength'', VInt (RandomUrlLength opts)),
      (''ProfileFile'', VString (ProfileFile opts)),
      (''EnableTLS'', VBool (EnableTLS opts)),
      (''TLSCrtFile'', VString (TLSCrtFile opts)),
      (''TLSKeyFile'', VString (TLSKeyFile opts)),
      (''TitleFormat'', VString (TitleFormat opts)),
      (''EnableReconnect'', VBool (EnableReconnect opts)),
      (''ReconnectTime'', VInt (ReconnectTime opts)),
      (''Once'', VBool (Once opts))]"

subsection \<open>Configuration file\<close>

definition configName :: "env \<Rightarrow> string \<Rightarrow> string" where
  "configName e name = ToLower e (Join (camelcase_Split name) ''_'')"

text \<open>
  The loop of \<^verbatim>\<open>applyConfigFile\<close> over the field names. The options record is updated
  in place, so the record as it stands is part of the result also when an error is
  returned.
\<close>

fun applyFields ::
  "env \<Rightarrow> (string \<rightharpoonup> hcl_value) \<Rightarrow> string list \<Rightarrow> Options \<Rightarrow> Options \<times> error option" where
  "applyFields e config [] opts = (opts, None)"
| "applyFields e config (name # names) opts =
     (case config (configName e name) of
        None \<Rightarrow> applyFields e config names opts
      | Some val \<Rightarrow>
          (case FieldOk name of
             None \<Rightarrow> (opts, Some (ErrorString (''No such field: '' @ name)))
           | Some field \<Rightarrow>
               (case Field_Set field val opts of
                  Inl err \<Rightarrow> (opts, Some err)
                | Inr opts' \<Rightarrow> applyFields e config names opts')))"

definition applyConfigFile ::
  "env \<Rightarrow> Options \<Rightarrow> string \<Rightarrow> panic + Options \<times> error option" where
  "applyConfigFile e opts filePath =
     (case expandHomeDir e filePath of
        Inl p \<Rightarrow> Inl p
      | Inr fp \<Rightarrow>
          if os_IsNotExist (os_Stat e fp) then Inr (opts, os_Stat e fp)
          else
            (case ioutil_ReadFile e fp of
               (fileString, Some err) \<Rightarrow> Inr (opts, Some err)
             | (fileString, None) \<Rightarrow>
                 Inr (applyFields e (fst (hclDecode e fileString)) Names opts)))"

text \<open>Two calls in a row on the same options record and the same file.\<close>

definition applyConfigFileTwice ::
  "env \<Rightarrow> Options \<Rightarrow> string \<Rightarrow> panic + Options \<times> error option" where
  "applyConfigFileTwice e opts filePath =
     (case applyConfigFile e opts filePath of
        Inl p \<Rightarrow> Inl p
      | Inr (opts', err) \<Rightarrow> applyConfigFile e opts' filePath)"

definition ApplyConfigFile ::
  "env \<Rightarrow> Options \<Rightarrow> string \<Rightarrow> panic + Options \<times> error option" where
  "ApplyConfigFile e opts configFilePath =
     (case applyConfigFile e opts configFilePath of
        Inl p \<Rightarrow> Inl p
      | Inr (opts', Some err) \<Rightarrow> Inr (opts', Some err)
      | Inr (opts', None) \<Rightarrow> Inr (opts', None))"

subsection \<open>Profile file\<close>

text \<open>
  The error of \<^verbatim>\<open>ioutil.ReadFile\<close> is dropped and whatever was read is decoded; when
  the default file is missing the empty string is decoded.
\<close>

text \<open>
  The result is Go's pair of the preferences map and the error; a \<^verbatim>\<open>nil\<close> map is the
  empty map.
\<close>

definition decodeProfile :: "env \<Rightarrow> string \<Rightarrow> (string \<rightharpoonup> hcl_value) \<times> error option" where
  "decodeProfile e prefString =
     (case hclDecode e prefString of
        (prefMap, Some err) \<Rightarrow> (Map.empty, Some err)
      | (prefMap, None) \<Rightarrow> (prefMap, None))"

definition loadProfileFile :: "env \<Rightarrow> Options \<Rightarrow> (string \<rightharpoonup> hcl_value) \<times> error option" where
  "loadProfileFile e opts =
     (let prefPath =
            (if ProfileFile opts = ProfileFile DefaultOptions then home e @ ''/.gotty.prf''
             else ProfileFile opts)
      in if os_IsNotExist (os_Stat e prefPath)
         then (if ProfileFile opts \<noteq> ProfileFile DefaultOptions
               then (Map.empty, os_Stat e prefPath)
               else decodeProfile e [])
         else decodeProfile e (fst (ioutil_ReadFile e prefPath)))"

subsection \<open>Random path segment\<close>

text \<open>
  \<^verbatim>\<open>strconv.FormatInt(i, base)\<close> for a base from 2 to 36: the digits of the absolute
  value, most significant first, after a minus sign for a negative number.
\<close>

definition digitChar :: "nat \<Rightarrow> char" where
  "digitChar d = ''0123456789abcdefghijklmnopqrstuvwxyz'' ! d"

function formatBits :: "nat \<Rightarrow> nat \<Rightarrow> string" where
  "formatBits base u =
     (if base < 2 \<or> u < base then [digitChar u]
      else formatBits base (u div base) @ [digitChar (u mod base)])"
  by pat_completeness auto
termination
  by (relation "measure (\<lambda>(base, u). u)") auto

definition FormatInt :: "int \<Rightarrow> nat \<Rightarrow> string" where
  "FormatInt i base =
     (if i < 0 then CHR ''-'' # formatBits base (nat (- i)) else formatBits base (nat i))"

definition byteAt :: "string \<Rightarrow> nat \<Rightarrow> panic + char" where
  "byteAt s i = (if i < length s then Inr (s ! i) else Inl IndexOutOfRange)"

text \<open>
  The loop over the indices of the buffer. The error of \<^verbatim>\<open>rand.Int\<close> is dropped, so
  that a failing reader leaves \<^verbatim>\<open>c\<close> nil and \<^verbatim>\<open>c.Int64()\<close> panics. \<^verbatim>\<open>make\<close> panics on
  a negative length; the bound that memory puts on the length is not modelled.
\<close>

fun fillRandom :: "env \<Rightarrow> nat list \<Rightarrow> string \<Rightarrow> panic + string" where
  "fillRandom e [] n = Inr n"
| "fillRandom e (i # is) n =
     (case randInt e i of
        None \<Rightarrow> Inl NilPointerDereference
      | Some c \<Rightarrow>
          (case byteAt (FormatInt c 36) 0 of
             Inl p \<Rightarrow> Inl p
           | Inr b \<Rightarrow> fillRandom e is (n[i := b])))"

definition generateRandomString :: "env \<Rightarrow> int \<Rightarrow> panic + string" where
  "generateRandomString e len =
     (if len < 0 then Inl MakeSliceLenOutOfRange
      else fillRandom e [0..<nat len] (replicate (nat len) (CHR 0x00)))"

text \<open>The lower-case digits of base 36.\<close>

definition base36 :: string where
  "base36 = ''0123456789abcdefghijklmnopqrstuvwxyz''"

subsection \<open>Base64\<close>

text \<open>
  \<^verbatim>\<open>base64.StdEncoding.DecodeString\<close>: carriage returns and line feeds are skipped;
  the rest is read in groups of four characters of the standard alphabet, each giving
  three bytes; only the last group may end in one or two padding characters; anything
  else is a \<^verbatim>\<open>CorruptInputError\<close>, here \<open>None\<close>.
\<close>

definition b64val :: "char \<Rightarrow> nat option" where
  "b64val c =
     (let n = (of_char c :: nat)
      in if 65 \<le> n \<and> n \<le> 90 then Some (n - 65)
         else if 97 \<le> n \<and> n \<le> 122 then Some (n - 71)
         else if 48 \<le> n \<and> n \<le> 57 then Some (n + 4)
         else if c = CHR ''+'' then Some 62
         else if c = CHR ''/'' then Some 63
         else None)"

definition quantum :: "nat \<Rightarrow> nat \<Rightarrow> nat \<Rightarrow> nat \<Rightarrow> nat \<Rightarrow> string" where
  "quantum dlen a b c d =
     (let val = ((a * 64 + b) * 64 + c) * 64 + d
      in take dlen [char_of (val div 65536), char_of (val div 256), char_of val])"

fun decodeQuanta :: "string \<Rightarrow> string option" where
  "decodeQuanta [] = Some []"
| "decodeQuanta [a, b, c, d] =
     (case (b64val a, b64val b) of
        (Some x, Some y) \<Rightarrow>
          (if c = CHR ''='' then (if d = CHR ''='' then Some (quantum 1 x y 0 0) else None)
           else
             (case b64val c of
                None \<Rightarrow> None
              | Some z \<Rightarrow>
                  (if d = CHR ''='' then Some (quantum 2 x y z 0)
                   else (case b64val d of None \<Rightarrow> None | Some v \<Rightarrow> Some (quantum 3 x y z v)))))
      | _ \<Rightarrow> None)"
| "decodeQuanta (a # b # c # d # rest) =
     (case (b64val a, b64val b, b64val c, b64val d) of
        (Some x, Some y, Some z, Some v) \<Rightarrow>
          map_option (\<lambda>out. quantum 3 x y z v @ out) (decodeQuanta rest)
      | _ \<Rightarrow> None)"
| "decodeQuanta _ = None"

definition DecodeString :: "string \<Rightarrow> string option" where
  "DecodeString s = decodeQuanta (filter (\<lambda>c. c \<noteq> CHR 0x0D \<and> c \<noteq> CHR 0x0A) s)"

subsection \<open>HTTP handlers\<close>

definition Header_Get :: "(string \<rightharpoonup> string list) \<Rightarrow> string \<Rightarrow> string" where
  "Header_Get h key = (case h key of None \<Rightarrow> [] | Some [] \<Rightarrow> [] | Some (v # _) \<Rightarrow> v)"

definition Header_Set :: "responseWriter \<Rightarrow> string \<Rightarrow> string \<Rightarrow> responseWriter" where
  "Header_Set w key v = w\<lparr>respHeader := (respHeader w)(key \<mapsto> [v])\<rparr>"

definition WriteHeader :: "responseWriter \<Rightarrow> nat \<Rightarrow> responseWriter" where
  "WriteHeader w code = (if respStatus w = None then w\<lparr>respStatus := Some code\<rparr> else w)"

definition Write :: "responseWriter \<Rightarrow> string \<Rightarrow> responseWriter" where
  "Write w bytes = (WriteHeader w 200)\<lparr>respBody := respBody w @ bytes\<rparr>"

text \<open>\<^verbatim>\<open>http.Error\<close>: a plain-text reply with the given status and the message as a line.\<close>

definition http_Error :: "responseWriter \<Rightarrow> string \<Rightarrow> nat \<Rightarrow> responseWriter" where
  "http_Error w msg code =
     Write
       (WriteHeader
          (Header_Set (Header_Set w ''Content-Type'' ''text/plain; charset=utf-8'')
             ''X-Content-Type-Options'' ''nosniff'')
          code)
       (msg @ [CHR 0x0A])"

definition realm :: string where
  "realm = ''Basic realm='' @ [CHR 0x22] @ ''GoTTY'' @ [CHR 0x22]"

definition wrapBasicAuth :: "env \<Rightarrow> handler \<Rightarrow> string \<Rightarrow> handler" where
  "wrapBasicAuth e handler credential = (\<lambda>w r.
     let token = SplitN2 (Header_Get (reqHeader r) ''Authorization'') (CHR '' '')
     in if length token \<noteq> 2 \<or> ToLower e (token ! 0) \<noteq> ''basic''
        then http_Error (Header_Set w ''WWW-Authenticate'' realm) ''Bad Request'' 401
        else
          (case DecodeString (token ! 1) of
             None \<Rightarrow> http_Error w ''Internal Server Error'' 500
           | Some payload \<Rightarrow>
               if credential \<noteq> payload
               then http_Error (Header_Set w ''WWW-Authenticate'' realm)
                      ''authorization failed'' 401
               else handler w r))"

text \<open>A reply with status 401 and the challenge header.\<close>

definition challenge401 :: "responseWriter \<Rightarrow> bool" where
  "challenge401 w \<longleftrightarrow>
     respStatus w = Some 401 \<and> respHeader w ''WWW-Authenticate'' = Some [realm]"

definition wrapLogger :: "handler \<Rightarrow> handler" where
  "wrapLogger handler = (\<lambda>w r. handler w r)"

subsection \<open>Starting the server\<close>

text \<open>\<^verbatim>\<open>net.JoinHostPort\<close>: a host with a colon or a percent sign is put in brackets.\<close>

definition JoinHostPort :: "string \<Rightarrow> string \<Rightarrow> string" where
  "JoinHostPort host port =
     (if IndexByte host (CHR '':'') \<noteq> None \<or> IndexByte host (CHR ''%'') \<noteq> None
      then ''['' @ host @ '']:'' @ port
      else host @ '':'' @ port)"

text \<open>
  \<^verbatim>\<open>Run\<close> up to the call that starts listening: the registrations of the multiplexer,
  the handler given to the server, its address, the scheme and the path of the URL that
  is logged, and the certificate and key files passed to \<^verbatim>\<open>ListenAndServeTLS\<close> (\<open>None\<close>
  for \<^verbatim>\<open>ListenAndServe\<close>).
\<close>

record server =
  siteMux :: "(string \<times> route) list"
  siteHandler :: handler
  endpoint :: string
  urlScheme :: string
  urlPath :: string
  tlsFiles :: "(string \<times> string) option"

definition randomPath :: "env \<Rightarrow> Options \<Rightarrow> panic + string" where
  "randomPath e opts =
     (if EnableRandomUrl opts
      then (case generateRandomString e (RandomUrlLength opts) of
              Inl p \<Rightarrow> Inl p
            | Inr s \<Rightarrow> Inr ('''' @ ''/'' @ s))
      else Inr '''')"

definition listenFiles :: "env \<Rightarrow> Options \<Rightarrow> panic + (string \<times> string) option" where
  "listenFiles e opts =
     (if EnableTLS opts
      then (case expandHomeDir e (TLSCrtFile opts) of
              Inl p \<Rightarrow> Inl p
            | Inr crt \<Rightarrow>
                (case expandHomeDir e (TLSKeyFile opts) of
                   Inl p \<Rightarrow> Inl p
                 | Inr key \<Rightarrow> Inr (Some (crt, key))))
      else Inr None)"

definition Run :: "env \<Rightarrow> Options \<Rightarrow> panic + server" where
  "Run e opts =
     (case randomPath e opts of
        Inl p \<Rightarrow> Inl p
      | Inr path \<Rightarrow>
          (let mux = [(path @ ''/'', StaticFiles (path @ ''/'')), (path @ ''/ws'', WebSocket)];
               h = muxServe e mux;
               h' = (if EnableBasicAuth opts then wrapBasicAuth e h (Credential opts) else h)
           in case listenFiles e opts of
                Inl p \<Rightarrow> Inl p
              | Inr files \<Rightarrow>
                  Inr \<lparr>siteMux = mux,
                       siteHandler = wrapLogger h',
                       endpoint = JoinHostPort (Address opts) (Port opts),
                       urlScheme = (if EnableTLS opts then ''https'' else ''http''),
                       urlPath = path @ ''/'',
                       tlsFiles = files\<rparr>))"


subsection \<open>A concrete environment\<close>

text \<open>
  An environment for the examples below: a home directory, four files, the values of
  \<^verbatim>\<open>hcl.Decode\<close> on their contents and on the empty document (a document with a
  missing value is a syntax error and leaves the target map untouched), a source of
  random numbers below 36, and a multiplexer whose handlers answer \<^verbatim>\<open>ok\<close>.
\<close>

definition example_files :: "(string \<times> string) list" where
  "example_files =
     [(''/etc/gotty/unknown.conf'', ''bogus = 1''),
      (''/etc/gotty/broken.conf'', ''port =''),
      (''/home/gotty/.gotty'', ''permit_write = true'' @ [CHR 0x0A] @ ''once = 1''),
      (''/etc/gotty/profile'', ''font_size = 12'')]"

definition example_hcl :: "string \<Rightarrow> (string \<rightharpoonup> hcl_value) \<times> error option" where
  "example_hcl doc =
     (if doc = [] then (Map.empty, None)
      else if doc = ''bogus = 1'' then ([''bogus'' \<mapsto> VInt 1], None)
      else if doc = ''permit_write = true'' @ [CHR 0x0A] @ ''once = 1''
      then ([''permit_write'' \<mapsto> VBool True, ''once'' \<mapsto> VInt 1], None)
      else if doc = ''font_size = 12'' then ([''font_size'' \<mapsto> VInt 12], None)
      else (Map.empty, Some (DecodeError ''parse error'')))"

definition example_env :: env where
  "example_env = \<lparr>
     home = ''/home/gotty'',
     stat = (\<lambda>p. if map_of example_files p = None then Some ENOENT else None),
     readFile = (\<lambda>p. case map_of example_files p of
                        None \<Rightarrow> ([], Some ENOENT)
                      | Some bytes \<Rightarrow> (bytes, None)),
     hclDecode = example_hcl,
     randInt = (\<lambda>i. Some (int ((7 * i + 11) mod 36))),
     unicodeToLower = (\<lambda>s. s),
     muxServe = (\<lambda>mux w r. Write w ''ok'')
   \<rparr>"

definition example_request :: "string \<Rightarrow> request" where
  "example_request authorization = \<lparr>
     reqMethod = ''GET'',
     reqPath = ''/'',
     reqHeader = [''Authorization'' \<mapsto> [authorization]],
     remoteAddr = ''127.0.0.1:40000''
   \<rparr>"

definition newResponseWriter :: responseWriter where
  "newResponseWriter = \<lparr>respHeader = Map.empty, respStatus = None, respBody = []\<rparr>"

section \<open>Properties\<close>

subsection \<open>Home-directory expansion\<close>

text \<open>
  Claim C9. The home-directory expansion helper is partial. For every path of at least
  two bytes it returns \<^verbatim>\<open>HOME\<close> followed by the path without its leading \<^verbatim>\<open>~\<close> when
  the path starts with \<^verbatim>\<open>~/\<close>, and the path unchanged otherwise; for every input
  shorter than two bytes, the empty string included, the slice expression is out of
  bounds and the function panics.
\<close>

theorem expandHomeDir_partial:
  "(2 \<le> length path \<longrightarrow>
      (\<exists>rest. path = ''~/'' @ rest) \<longrightarrow>
      expandHomeDir e path = Inr (home e @ tl path))
   \<and> (2 \<le> length path \<longrightarrow>
      \<not> (\<exists>rest. path = ''~/'' @ rest) \<longrightarrow>
      expandHomeDir e path = Inr path)
   \<and> (length path < 2 \<longrightarrow> expandHomeDir e path = Inl SliceBoundsOutOfRange)
   \<and> expandHomeDir e [] = Inl SliceBoundsOutOfRange"
proof -
  have pre: "(\<exists>rest. path = ''~/'' @ rest) \<longleftrightarrow> take 2 path = ''~/''" if "2 \<le> length path"
  proof
    assume "\<exists>rest. path = ''~/'' @ rest"
    then show "take 2 path = ''~/''" by auto
  next
    assume t: "take 2 path = ''~/''"
    have "path = take 2 path @ drop 2 path" by simp
    with t show "\<exists>rest. path = ''~/'' @ rest" by metis
  qed
  show ?thesis
    using pre by (auto simp: expandHomeDir_def drop_Suc)
qed

theorem expandHomeDir_partial_witness:
  "expandHomeDir example_env ''~/.gotty.key'' = Inr (home example_env @ ''/.gotty.key'')
   \<and> expandHomeDir example_env ''/etc/gotty/unknown.conf'' = Inr ''/etc/gotty/unknown.conf''
   \<and> expandHomeDir example_env ''~'' = Inl SliceBoundsOutOfRange"
  using expandHomeDir_partial [of "''~/.gotty.key''" example_env]
    expandHomeDir_partial [of "''/etc/gotty/unknown.conf''" example_env]
    expandHomeDir_partial [of "''~''" example_env]
  by simp

subsection \<open>Configuration file: a missing file\<close>

lemma os_IsNotExist_Stat: "os_IsNotExist (os_Stat e p) \<longleftrightarrow> stat e p = Some ENOENT"
  by (cases "stat e p"; cases "the (stat e p)") (auto simp: os_Stat_def)

text \<open>
  Claim C10. If the home-expanded configuration file path does not name an existing
  file, config loading returns an error (the one of \<^verbatim>\<open>os.Stat\<close>) and the options
  record passed in is left unchanged.
\<close>

theorem applyConfigFile_missing_file:
  assumes "expandHomeDir e filePath = Inr fp" and "stat e fp = Some ENOENT"
  shows "applyConfigFile e opts filePath = Inr (opts, Some (PathError ''stat'' fp ENOENT))"
  using assms by (simp add: applyConfigFile_def os_IsNotExist_Stat) (simp add: os_Stat_def)

lemma example_stat_missing: "stat example_env ''/home/gotty/missing.conf'' = Some ENOENT"
  by (simp add: example_env_def example_files_def)

theorem applyConfigFile_missing_file_witness:
  "applyConfigFile example_env DefaultOptions ''~/missing.conf'' =
     Inr (DefaultOptions, Some (PathError ''stat'' ''/home/gotty/missing.conf'' ENOENT))"
proof -
  have "expandHomeDir example_env ''~/missing.conf'' = Inr ''/home/gotty/missing.conf''"
    by (simp add: expandHomeDir_def example_env_def)
  then show ?thesis
    using example_stat_missing by (rule applyConfigFile_missing_file)
qed

subsection \<open>TLS files\<close>

text \<open>
  Claim C5. In the default options the certificate-file field holds the path ending in
  \<^verbatim>\<open>.key\<close> and the key-file field the path ending in \<^verbatim>\<open>.crt\<close>; when TLS is enabled
  the server is started with exactly these paths, home-expanded, as certificate and key
  in this order (and in general with the expansions of the two configured fields).
\<close>

theorem default_tls_files_swapped:
  "TLSCrtFile DefaultOptions = ''~/.gotty.key''
   \<and> TLSKeyFile DefaultOptions = ''~/.gotty.crt''
   \<and> map_sum id tlsFiles (Run e (DefaultOptions\<lparr>EnableTLS := True\<rparr>)) =
       Inr (Some (home e @ ''/.gotty.key'', home e @ ''/.gotty.crt''))
   \<and> (EnableTLS opts \<longrightarrow> Run e opts = Inr s \<longrightarrow>
        (\<exists>crt key. expandHomeDir e (TLSCrtFile opts) = Inr crt
           \<and> expandHomeDir e (TLSKeyFile opts) = Inr key
           \<and> tlsFiles s = Some (crt, key)))"
  by (auto simp: DefaultOptions_def Run_def randomPath_def listenFiles_def expandHomeDir_def
      Let_def split: sum.splits if_splits)

theorem default_tls_files_swapped_witness:
  "map_sum id tlsFiles (Run example_env (DefaultOptions\<lparr>EnableTLS := True\<rparr>)) =
     Inr (Some (''/home/gotty/.gotty.key'', ''/home/gotty/.gotty.crt''))"
  using default_tls_files_swapped [of example_env]
  by (simp add: example_env_def)

subsection \<open>Random URL of length zero\<close>




subsection \<open>Random path segment\<close>

lemma digitChar_base36: "d < 36 \<Longrightarrow> digitChar d \<in> set base36"
  unfolding digitChar_def base36_def by (rule nth_mem) simp

lemma first_digit:
  assumes "0 \<le> c" and "c < 36"
  shows "byteAt (FormatInt c 36) 0 = Inr (digitChar (nat c))"
  using assms by (simp add: byteAt_def FormatInt_def)

lemma fillRandom_invariant:
  assumes "\<forall>i \<in> set is. \<exists>c. randInt e i = Some c \<and> 0 \<le> c \<and> c < 36"
  shows "\<exists>s. fillRandom e is buf = Inr s \<and> length s = length buf
    \<and> (\<forall>j < length buf. (j \<in> set is \<longrightarrow> s ! j \<in> set base36) \<and> (j \<notin> set is \<longrightarrow> s ! j = buf ! j))"
  using assms
proof (induction "is" arbitrary: buf)
  case Nil
  then show ?case by simp
next
  case (Cons i "is")
  from Cons.prems obtain c where c: "randInt e i = Some c" "0 \<le> c" "c < 36"
    by auto
  let ?b = "digitChar (nat c)"
  have b: "?b \<in> set base36"
    using c by (intro digitChar_base36) simp
  from Cons.prems have "\<forall>i \<in> set is. \<exists>c. randInt e i = Some c \<and> 0 \<le> c \<and> c < 36"
    by simp
  from Cons.IH [OF this, of "buf[i := ?b]"] obtain s where
    s: "fillRandom e is (buf[i := ?b]) = Inr s" "length s = length buf"
      "\<forall>j < length buf. (j \<in> set is \<longrightarrow> s ! j \<in> set base36)
          \<and> (j \<notin> set is \<longrightarrow> s ! j = buf[i := ?b] ! j)"
    by auto
  have "fillRandom e (i # is) buf = Inr s"
    using c s(1) by (simp add: first_digit)
  moreover have "(j \<in> set (i # is) \<longrightarrow> s ! j \<in> set base36)
      \<and> (j \<notin> set (i # is) \<longrightarrow> s ! j = buf ! j)" if "j < length buf" for j
    using s(3) that b by (cases "j = i"; cases "j \<in> set is") auto
  ultimately show ?case using s(2) by blast
qed

text \<open>
  Claim C6. For every non-negative length \<open>n\<close>, the random path-segment generator
  returns a string of exactly \<open>n\<close> characters, each of them a lower-case digit of base
  36, whenever the random source delivers, as \<^verbatim>\<open>rand.Int\<close> promises, numbers from 0
  up to 36 excluded.
\<close>

theorem generateRandomString_base36:
  assumes "0 \<le> n"
    and "\<forall>i < nat n. \<exists>c. randInt e i = Some c \<and> 0 \<le> c \<and> c < 36"
  shows "\<exists>s. generateRandomString e n = Inr s \<and> length s = nat n
    \<and> (\<forall>ch \<in> set s. ch \<in> set base36)"
proof -
  from assms(2) have "\<forall>i \<in> set [0..<nat n]. \<exists>c. randInt e i = Some c \<and> 0 \<le> c \<and> c < 36"
    by simp
  from fillRandom_invariant [OF this, of "replicate (nat n) (CHR 0x00)"] obtain s where
    s: "fillRandom e [0..<nat n] (replicate (nat n) (CHR 0x00)) = Inr s" "length s = nat n"
      "\<forall>j < nat n. s ! j \<in> set base36"
    by auto
  have "generateRandomString e n = Inr s"
    using assms(1) s(1) by (simp add: generateRandomString_def)
  moreover have "\<forall>ch \<in> set s. ch \<in> set base36"
    using s(2,3) by (auto simp: in_set_conv_nth)
  ultimately show ?thesis using s(2) by blast
qed

lemma example_randInt: "\<forall>i < nat 8. \<exists>c. randInt example_env i = Some c \<and> 0 \<le> c \<and> c < 36"
  by (simp add: example_env_def)

theorem generateRandomString_base36_witness:
  "generateRandomString example_env 8 = Inr ''bipw3aho''
   \<and> (\<exists>s. generateRandomString example_env 8 = Inr s \<and> length s = nat 8
        \<and> (\<forall>ch \<in> set s. ch \<in> set base36))"
proof -
  have "(0::int) \<le> 8" by simp
  from generateRandomString_base36 [OF this example_randInt]
  have "\<exists>s. generateRandomString example_env 8 = Inr s \<and> length s = nat 8
        \<and> (\<forall>ch \<in> set s. ch \<in> set base36)" .
  moreover have "generateRandomString example_env 8 = Inr ''bipw3aho''"
    by code_simp
  ultimately show ?thesis by simp
qed

subsection \<open>Profile file\<close>

text \<open>
  Claim C3. Profile-file loading succeeds with an empty preferences map when the
  profile path is the default one and the file does not exist (the empty document then
  decoded being, for \<^verbatim>\<open>hcl.Decode\<close>, the empty map); it returns an error when the
  profile path is not the default one and the file does not exist; and when the file
  exists, the map decoded from its contents is returned.
\<close>

theorem loadProfileFile_cases:
  "(ProfileFile opts = ProfileFile DefaultOptions \<longrightarrow>
      stat e (home e @ ''/.gotty.prf'') = Some ENOENT \<longrightarrow>
      hclDecode e [] = (Map.empty, None) \<longrightarrow>
      loadProfileFile e opts = (Map.empty, None))
   \<and> (ProfileFile opts \<noteq> ProfileFile DefaultOptions \<longrightarrow>
      stat e (ProfileFile opts) = Some ENOENT \<longrightarrow>
      loadProfileFile e opts =
        (Map.empty, Some (PathError ''stat'' (ProfileFile opts) ENOENT)))
   \<and> (prefPath = (if ProfileFile opts = ProfileFile DefaultOptions
                   then home e @ ''/.gotty.prf'' else ProfileFile opts) \<longrightarrow>
      stat e prefPath = None \<longrightarrow>
      readFile e prefPath = (bytes, None) \<longrightarrow>
      hclDecode e bytes = (prefMap, None) \<longrightarrow>
      loadProfileFile e opts = (prefMap, None))"
  by (simp add: loadProfileFile_def decodeProfile_def os_IsNotExist_Stat ioutil_ReadFile_def)
     (simp add: os_Stat_def)

lemma example_profile:
  "stat example_env ''/home/gotty/.gotty.prf'' = Some ENOENT"
  "stat example_env ''/etc/gotty/none'' = Some ENOENT"
  "stat example_env ''/etc/gotty/profile'' = None"
  "readFile example_env ''/etc/gotty/profile'' = (''font_size = 12'', None)"
  "hclDecode example_env [] = (Map.empty, None)"
  "hclDecode example_env ''font_size = 12'' = ([''font_size'' \<mapsto> VInt 12], None)"
  by (simp_all add: example_env_def example_files_def example_hcl_def)

theorem loadProfileFile_cases_witness:
  "loadProfileFile example_env DefaultOptions = (Map.empty, None)
   \<and> loadProfileFile example_env (DefaultOptions\<lparr>ProfileFile := ''/etc/gotty/none''\<rparr>) =
       (Map.empty, Some (PathError ''stat'' ''/etc/gotty/none'' ENOENT))
   \<and> loadProfileFile example_env (DefaultOptions\<lparr>ProfileFile := ''/etc/gotty/profile''\<rparr>) =
       ([''font_size'' \<mapsto> VInt 12], None)"
  using loadProfileFile_cases [of DefaultOptions example_env]
    loadProfileFile_cases [of "DefaultOptions\<lparr>ProfileFile := ''/etc/gotty/none''\<rparr>" example_env]
    loadProfileFile_cases [of "DefaultOptions\<lparr>ProfileFile := ''/etc/gotty/profile''\<rparr>"
      example_env "''/etc/gotty/profile''" "''font_size = 12''" "[''font_size'' \<mapsto> VInt 12]"]
    example_profile
  by (simp add: DefaultOptions_def) (simp add: example_env_def)

subsection \<open>Decode errors\<close>





subsection \<open>Configuration file: applying it twice\<close>

lemma fieldValue_inj:
  assumes "fieldValue a = fieldValue b"
  shows "a = b"
proof -
  have *: "fieldValue a n = fieldValue b n" for n
    using assms by simp
  show ?thesis
    using *[of "''Address''"] *[of "''Port''"] *[of "''PermitWrite''"] *[of "''EnableBasicAuth''"]
      *[of "''Credential''"] *[of "''EnableRandomUrl''"] *[of "''RandomUrlLength''"]
      *[of "''ProfileFile''"] *[of "''EnableTLS''"] *[of "''TLSCrtFile''"] *[of "''TLSKeyFile''"]
      *[of "''TitleFormat''"] *[of "''EnableReconnect''"] *[of "''ReconnectTime''"] *[of "''Once''"]
    by (simp add: fieldValue_def)
qed

lemma Field_Set_view:
  assumes "(name, k) \<in> set fieldKinds"
    and "Field_Set (Field name k) val opts = Inr opts'"
  shows "fieldValue opts' = (fieldValue opts)(name \<mapsto> val)"
proof -
  from assms(2) have k: "k = kindOf val" and o: "opts' = reflect_Set name val opts"
    by (simp_all split: if_splits)
  from assms(1) have
    "name = ''Address'' \<and> k = KString \<or> name = ''Port'' \<and> k = KString
     \<or> name = ''PermitWrite'' \<and> k = KBool \<or> name = ''EnableBasicAuth'' \<and> k = KBool
     \<or> name = ''Credential'' \<and> k = KString \<or> name = ''EnableRandomUrl'' \<and> k = KBool
     \<or> name = ''RandomUrlLength'' \<and> k = KInt \<or> name = ''ProfileFile'' \<and> k = KString
     \<or> name = ''EnableTLS'' \<and> k = KBool \<or> name = ''TLSCrtFile'' \<and> k = KString
     \<or> name = ''TLSKeyFile'' \<and> k = KString \<or> name = ''TitleFormat'' \<and> k = KString
     \<or> name = ''EnableReconnect'' \<and> k = KBool \<or> name = ''ReconnectTime'' \<and> k = KInt
     \<or> name = ''Once'' \<and> k = KBool"
    by (simp add: fieldKinds_def)
  then show ?thesis
    using k unfolding o
    by (elim disjE conjE; cases val; simp add: reflect_Set_def fieldValue_def fun_eq_iff)
qed

lemma distinct_Names: "distinct Names"
  by (simp add: Names_def fieldKinds_def)

lemma FieldOk_Some:
  assumes "FieldOk name = Some f"
  shows "\<exists>k. f = Field name k \<and> (name, k) \<in> set fieldKinds"
  using assms by (auto simp: FieldOk_def dest: map_of_SomeD)

lemma applyFields_frame:
  assumes "applyFields e config names opts = (opts', err)" and "n \<notin> set names"
  shows "fieldValue opts' n = fieldValue opts n"
  using assms
proof (induction names arbitrary: opts)
  case Nil
  then show ?case by simp
next
  case (Cons name names)
  show ?case
  proof (cases "config (configName e name)")
    case None
    with Cons show ?thesis by simp
  next
    case (Some val)
    show ?thesis
    proof (cases "FieldOk name")
      case None
      with Some Cons.prems show ?thesis by simp
    next
      case f: (Some f)
      then obtain k where k: "f = Field name k" "(name, k) \<in> set fieldKinds"
        using FieldOk_Some by blast
      show ?thesis
      proof (cases "Field_Set (Field name k) val opts")
        case (Inl a)
        with Some f k Cons.prems show ?thesis by simp
      next
        case (Inr opts1)
        with Some f k Cons.prems have "applyFields e config names opts1 = (opts', err)"
          by simp
        with Cons.IH Cons.prems(2) have "fieldValue opts' n = fieldValue opts1 n"
          by simp
        also have "\<dots> = fieldValue opts n"
          using Field_Set_view [OF k(2) Inr] Cons.prems(2) by simp
        finally show ?thesis .
      qed
    qed
  qed
qed

lemma applyFields_idem:
  assumes "applyFields e config names opts = (opts', err)" and "distinct names"
  shows "applyFields e config names opts' = (opts', err)"
  using assms
proof (induction names arbitrary: opts)
  case Nil
  then show ?case by simp
next
  case (Cons name names)
  show ?case
  proof (cases "config (configName e name)")
    case None
    with Cons show ?thesis by simp
  next
    case (Some val)
    show ?thesis
    proof (cases "FieldOk name")
      case None
      with Some Cons.prems show ?thesis by auto
    next
      case f: (Some f)
      then obtain k where k: "f = Field name k" "(name, k) \<in> set fieldKinds"
        using FieldOk_Some by blast
      show ?thesis
      proof (cases "Field_Set (Field name k) val opts")
        case (Inl a)
        with Some f k Cons.prems have "opts' = opts" "err = Some a"
          by simp_all
        with Some f k Inl show ?thesis by simp
      next
        case (Inr opts1)
        with Some f k Cons.prems have rest: "applyFields e config names opts1 = (opts', err)"
          by simp
        have "fieldValue opts' name = fieldValue opts1 name"
          using applyFields_frame [OF rest] Cons.prems(2) by simp
        also have "\<dots> = Some val"
          using Field_Set_view [OF k(2) Inr] by simp
        finally have cur: "fieldValue opts' name = Some val" .
        from Inr have kind: "k = kindOf val"
          by (simp split: if_splits)
        then have again: "Field_Set (Field name k) val opts' = Inr (reflect_Set name val opts')"
          by simp
        have "fieldValue (reflect_Set name val opts') = fieldValue opts'"
          using Field_Set_view [OF k(2) again] cur by (simp add: fun_upd_idem)
        then have "reflect_Set name val opts' = opts'"
          by (rule fieldValue_inj)
        with again Some f k have "applyFields e config (name # names) opts'
            = applyFields e config names opts'"
          by simp
        also have "\<dots> = (opts', err)"
          using Cons.IH [OF rest] Cons.prems(2) by simp
        finally show ?thesis .
      qed
    qed
  qed
qed

text \<open>
  Claim C8. Applying the same configuration file to an options record twice yields the
  same options record (and the same error, or the same panic) as applying it once.
\<close>

theorem applyConfigFile_idempotent:
  "applyConfigFileTwice e opts path = applyConfigFile e opts path"
proof (cases "applyConfigFile e opts path")
  case (Inl p)
  then show ?thesis by (simp add: applyConfigFileTwice_def)
next
  case (Inr r)
  obtain opts' err where r: "r = (opts', err)" by (cases r)
  from Inr r obtain fp where fp: "expandHomeDir e path = Inr fp"
    by (auto simp: applyConfigFile_def split: sum.splits)
  have "applyConfigFile e opts' path = Inr (opts', err)"
  proof (cases "os_IsNotExist (os_Stat e fp)")
    case True
    with Inr r fp show ?thesis by (simp add: applyConfigFile_def)
  next
    case False
    obtain bytes rerr where rd: "ioutil_ReadFile e fp = (bytes, rerr)"
      by (cases "ioutil_ReadFile e fp")
    show ?thesis
    proof (cases rerr)
      case (Some a)
      with Inr r fp False rd show ?thesis by (auto simp: applyConfigFile_def)
    next
      case None
      with Inr r fp False rd
      have "applyFields e (fst (hclDecode e bytes)) Names opts = (opts', err)"
        by (simp add: applyConfigFile_def)
      then have "applyFields e (fst (hclDecode e bytes)) Names opts' = (opts', err)"
        using distinct_Names by (rule applyFields_idem)
      with fp False rd None show ?thesis by (simp add: applyConfigFile_def)
    qed
  qed
  with Inr r show ?thesis by (simp add: applyConfigFileTwice_def)
qed

lemma configNames:
  "map (configName e) Names =
     [''address'', ''port'', ''permit_write'', ''enable_basic_auth'', ''credential'',
      ''enable_random_url'', ''random_url_length'', ''profile_file'', ''enable_tls'',
      ''tls_crt_file'', ''tls_key_file'', ''title_format'', ''enable_reconnect'',
      ''reconnect_time'', ''once'']"
  by code_simp

lemma example_partial:
  "applyConfigFile example_env DefaultOptions ''~/.gotty'' =
     Inr (DefaultOptions\<lparr>PermitWrite := True\<rparr>, Some (WrongKind KInt KBool))"
  by code_simp

theorem applyConfigFile_idempotent_witness:
  "applyConfigFileTwice example_env DefaultOptions ''~/.gotty'' =
     Inr (DefaultOptions\<lparr>PermitWrite := True\<rparr>, Some (WrongKind KInt KBool))"
  using applyConfigFile_idempotent [of example_env DefaultOptions "''~/.gotty''"]
  by (simp only: example_partial)

subsection \<open>Configuration file: unknown keys\<close>

lemma applyFields_restrict:
  assumes "configName e ` set names \<subseteq> S"
  shows "applyFields e (config |` S) names opts = applyFields e config names opts"
  using assms by (induction names arbitrary: opts) (auto split: option.splits sum.splits)

lemma applyFields_no_key:
  assumes "\<forall>n \<in> set names. config (configName e n) = None"
  shows "applyFields e config names opts = (opts, None)"
  using assms by (induction names) simp_all

text \<open>
  Against claim C2: a readable configuration file whose document has the key
  \<^verbatim>\<open>bogus\<close>, which is not the snake-case name of any field, is loaded without an error.
\<close>

theorem unknown_key_accepted_counterexample:
  "readFile example_env ''/etc/gotty/unknown.conf'' = (''bogus = 1'', None)
   \<and> fst (hclDecode example_env ''bogus = 1'') ''bogus'' = Some (VInt 1)
   \<and> ''bogus'' \<notin> set (map (configName example_env) Names)
   \<and> applyConfigFile example_env DefaultOptions ''/etc/gotty/unknown.conf'' =
       Inr (DefaultOptions, None)"
proof -
  have "applyConfigFile example_env DefaultOptions ''/etc/gotty/unknown.conf'' =
       Inr (DefaultOptions, None)"
    by code_simp
  then show ?thesis
    unfolding configNames by (simp add: example_env_def example_files_def example_hcl_def)
qed

text \<open>
  Claim C2, amended. A key of the document that is not the snake-case name of a field
  of the options record is ignored: the loop over the fields gives the same options
  and the same error as for the document without such keys, and a readable file whose
  document has only such keys is loaded with no error and leaves the options unchanged.
\<close>

theorem applyConfigFile_ignores_unknown_keys:
  "applyFields e (config |` set (map (configName e) Names)) Names opts =
     applyFields e config Names opts
   \<and> (expandHomeDir e path = Inr fp \<longrightarrow> stat e fp \<noteq> Some ENOENT \<longrightarrow>
       readFile e fp = (doc, None) \<longrightarrow>
       dom (fst (hclDecode e doc)) \<inter> set (map (configName e) Names) = {} \<longrightarrow>
       applyConfigFile e opts path = Inr (opts, None))"
proof -
  have a: "applyFields e (config |` set (map (configName e) Names)) Names opts =
     applyFields e config Names opts"
    by (rule applyFields_restrict) simp
  have b: "applyConfigFile e opts path = Inr (opts, None)"
    if "expandHomeDir e path = Inr fp" "stat e fp \<noteq> Some ENOENT" "readFile e fp = (doc, None)"
      "dom (fst (hclDecode e doc)) \<inter> set (map (configName e) Names) = {}"
  proof -
    from that(4) have "\<forall>n \<in> set Names. fst (hclDecode e doc) (configName e n) = None"
      by (auto simp: dom_def)
    then have "applyFields e (fst (hclDecode e doc)) Names opts = (opts, None)"
      by (rule applyFields_no_key)
    with that(1-3) show ?thesis
      by (simp add: applyConfigFile_def os_IsNotExist_Stat ioutil_ReadFile_def)
  qed
  from a b show ?thesis by blast
qed

lemma example_unknown:
  "expandHomeDir example_env ''/etc/gotty/unknown.conf'' = Inr ''/etc/gotty/unknown.conf''"
  "stat example_env ''/etc/gotty/unknown.conf'' \<noteq> Some ENOENT"
  "readFile example_env ''/etc/gotty/unknown.conf'' = (''bogus = 1'', None)"
  by (simp_all add: expandHomeDir_def example_env_def example_files_def)

lemma example_unknown_dom:
  "dom (fst (hclDecode example_env ''bogus = 1'')) \<inter> set (map (configName example_env) Names) = {}"
  unfolding configNames by (simp add: example_env_def example_hcl_def)

theorem applyConfigFile_ignores_unknown_keys_witness:
  "applyConfigFile example_env DefaultOptions ''/etc/gotty/unknown.conf'' =
     Inr (DefaultOptions, None)"
  using applyConfigFile_ignores_unknown_keys [where e = example_env
      and path = "''/etc/gotty/unknown.conf''" and fp = "''/etc/gotty/unknown.conf''"
      and doc = "''bogus = 1''" and opts = DefaultOptions]
    example_unknown example_unknown_dom
  by blast

subsection \<open>Basic authentication\<close>

lemma IndexByte_None: "c \<notin> set s \<Longrightarrow> IndexByte s c = None"
  by (induction s) auto

lemma IndexByte_append: "c \<notin> set a \<Longrightarrow> IndexByte (a @ c # b) c = Some (length a)"
  by (induction a) auto

lemma SplitN2_none: "c \<notin> set s \<Longrightarrow> SplitN2 s c = [s]"
  by (simp add: SplitN2_def IndexByte_None)

lemma SplitN2_first: "c \<notin> set a \<Longrightarrow> SplitN2 (a @ c # b) c = [a, b]"
  by (simp add: SplitN2_def IndexByte_append)

lemma first_split_exists:
  "c \<notin> set s \<or> (\<exists>a b. s = a @ c # b \<and> c \<notin> set a)"
  using split_list_first [of c s] by blast

lemma http_Error_status:
  "respStatus w = None \<Longrightarrow> respStatus (http_Error w msg code) = Some code"
  by (simp add: http_Error_def Write_def WriteHeader_def Header_Set_def)

lemma http_Error_challenge:
  "respHeader (http_Error w msg code) ''WWW-Authenticate'' = respHeader w ''WWW-Authenticate''"
  by (simp add: http_Error_def Write_def WriteHeader_def Header_Set_def)

lemma Header_Set_fields:
  "respStatus (Header_Set w key v) = respStatus w"
  "respHeader (Header_Set w key v) key = Some [v]"
  by (simp_all add: Header_Set_def)

lemma reject_challenge:
  "respStatus w = None \<Longrightarrow>
     challenge401 (http_Error (Header_Set w ''WWW-Authenticate'' realm) msg 401)"
  by (simp add: challenge401_def http_Error_status http_Error_challenge Header_Set_fields)

lemma wrap_no_space:
  assumes "CHR '' '' \<notin> set (Header_Get (reqHeader r) ''Authorization'')"
  shows "wrapBasicAuth e h cred w r =
     http_Error (Header_Set w ''WWW-Authenticate'' realm) ''Bad Request'' 401"
  using assms by (simp add: wrapBasicAuth_def SplitN2_none)

lemma wrap_split:
  assumes "Header_Get (reqHeader r) ''Authorization'' = a @ CHR '' '' # b"
    and "CHR '' '' \<notin> set a"
  shows "wrapBasicAuth e h cred w r =
     (if ToLower e a \<noteq> ''basic''
      then http_Error (Header_Set w ''WWW-Authenticate'' realm) ''Bad Request'' 401
      else case DecodeString b of
             None \<Rightarrow> http_Error w ''Internal Server Error'' 500
           | Some payload \<Rightarrow>
               if cred \<noteq> payload
               then http_Error (Header_Set w ''WWW-Authenticate'' realm)
                      ''authorization failed'' 401
               else h w r)"
  using assms by (simp add: wrapBasicAuth_def SplitN2_first)

lemma Run_siteHandler:
  assumes "EnableBasicAuth opts" and "Run e opts = Inr s"
  shows "siteHandler s = wrapBasicAuth e (muxServe e (siteMux s)) (Credential opts)"
  using assms
  by (auto simp: Run_def wrapLogger_def Let_def split: sum.splits)


lemma wrap_500:
  "respStatus w = None \<Longrightarrow>
     respStatus (http_Error w ''Internal Server Error'' 500) = Some 500
     \<and> respHeader (http_Error w ''Internal Server Error'' 500) ''WWW-Authenticate''
         = respHeader w ''WWW-Authenticate''"
  by (simp add: http_Error_status http_Error_challenge)

lemma wrap_accept:
  assumes "Header_Get (reqHeader r) ''Authorization'' = scheme @ '' '' @ payload"
    and "CHR '' '' \<notin> set scheme"
    and "ToLower e scheme = ''basic''"
    and "DecodeString payload = Some cred"
  shows "wrapBasicAuth e h cred w r = h w r"
  using assms wrap_split [of r scheme payload e h cred w] by simp

lemma wrap_reject_indep:
  assumes "\<not> (\<exists>scheme payload.
      Header_Get (reqHeader r) ''Authorization'' = scheme @ '' '' @ payload
      \<and> CHR '' '' \<notin> set scheme \<and> ToLower e scheme = ''basic''
      \<and> DecodeString payload = Some cred)"
  shows "wrapBasicAuth e h1 cred w r = wrapBasicAuth e h2 cred w r"
proof -
  let ?hdr = "Header_Get (reqHeader r) ''Authorization''"
  from first_split_exists [of "CHR '' ''" ?hdr] show ?thesis
  proof
    assume "CHR '' '' \<notin> set ?hdr"
    then show ?thesis by (simp add: wrap_no_space)
  next
    assume "\<exists>a b. ?hdr = a @ CHR '' '' # b \<and> CHR '' '' \<notin> set a"
    then obtain a b where ab: "?hdr = a @ CHR '' '' # b" "CHR '' '' \<notin> set a"
      by blast
    with assms have "\<not> (ToLower e a = ''basic'' \<and> DecodeString b = Some cred)"
      by auto
    then show ?thesis
      by (auto simp: wrap_split [OF ab] split: option.splits)
  qed
qed

text \<open>
  Claim C1, amended. When basic auth is enabled the wrapper stands in front of the whole
  multiplexer, so that every route is covered. On a fresh response writer it forwards a
  request to the inner handler if and only if the \<^verbatim>\<open>Authorization\<close> header is a scheme
  that lower-cases to \<^verbatim>\<open>basic\<close>, one space, and a payload whose base64 decoding is
  byte-wise equal to the configured credential. A request with no such header, or with
  a header that is not a \<^verbatim>\<open>basic\<close> scheme followed by a space, or with a payload that
  decodes to another string, is answered with status 401 and the challenge header
  \<^verbatim>\<open>WWW-Authenticate: Basic realm="GoTTY"\<close>. A \<^verbatim>\<open>basic\<close> header whose payload is not
  valid base64 is answered with status 500, and no challenge header is set.
\<close>

theorem wrapBasicAuth_decision:
  assumes "respStatus w = None"
    and "Header_Get (reqHeader r) ''Authorization'' = hdr"
  shows
    "((\<forall>handler. wrapBasicAuth e handler cred w r = handler w r) \<longleftrightarrow>
        (\<exists>scheme payload. hdr = scheme @ '' '' @ payload \<and> CHR '' '' \<notin> set scheme
           \<and> ToLower e scheme = ''basic'' \<and> DecodeString payload = Some cred))
     \<and> (reqHeader r ''Authorization'' = None \<longrightarrow>
          challenge401 (wrapBasicAuth e handler cred w r))
     \<and> (\<not> (\<exists>scheme payload. hdr = scheme @ '' '' @ payload \<and> CHR '' '' \<notin> set scheme
               \<and> ToLower e scheme = ''basic'') \<longrightarrow>
          challenge401 (wrapBasicAuth e handler cred w r))
     \<and> (\<forall>scheme payload.
          hdr = scheme @ '' '' @ payload \<longrightarrow> CHR '' '' \<notin> set scheme \<longrightarrow>
          ToLower e scheme = ''basic'' \<longrightarrow>
          (case DecodeString payload of
             None \<Rightarrow>
               respStatus (wrapBasicAuth e handler cred w r) = Some 500
               \<and> respHeader (wrapBasicAuth e handler cred w r) ''WWW-Authenticate''
                   = respHeader w ''WWW-Authenticate''
           | Some p \<Rightarrow>
               (p \<noteq> cred \<longrightarrow> challenge401 (wrapBasicAuth e handler cred w r))
               \<and> (p = cred \<longrightarrow> wrapBasicAuth e handler cred w r = handler w r)))
     \<and> (EnableBasicAuth opts \<longrightarrow> Run e opts = Inr s \<longrightarrow>
          siteHandler s = wrapBasicAuth e (muxServe e (siteMux s)) (Credential opts))"
    (is "?iff \<and> ?missing \<and> ?other \<and> ?basic \<and> ?run")
proof -
  note hdr = assms(2) [symmetric]
  note fresh = assms(1)
  have "?iff"
  proof
    assume all: "\<forall>handler. wrapBasicAuth e handler cred w r = handler w r"
    show "\<exists>scheme payload. hdr = scheme @ '' '' @ payload \<and> CHR '' '' \<notin> set scheme
           \<and> ToLower e scheme = ''basic'' \<and> DecodeString payload = Some cred"
    proof (rule ccontr)
      assume "\<not> ?thesis"
      then have "wrapBasicAuth e (\<lambda>_ _. w) cred w r
          = wrapBasicAuth e (\<lambda>_ _. w\<lparr>respBody := CHR ''x'' # respBody w\<rparr>) cred w r"
        unfolding hdr by (rule wrap_reject_indep)
      with all have "w = w\<lparr>respBody := CHR ''x'' # respBody w\<rparr>"
        by simp
      then have "respBody w = respBody (w\<lparr>respBody := CHR ''x'' # respBody w\<rparr>)"
        by simp
      then show False by simp
    qed
  next
    assume "\<exists>scheme payload. hdr = scheme @ '' '' @ payload \<and> CHR '' '' \<notin> set scheme
           \<and> ToLower e scheme = ''basic'' \<and> DecodeString payload = Some cred"
    then show "\<forall>handler. wrapBasicAuth e handler cred w r = handler w r"
      unfolding hdr by (blast intro: wrap_accept)
  qed
  moreover have "?missing"
  proof
    assume "reqHeader r ''Authorization'' = None"
    then have "CHR '' '' \<notin> set (Header_Get (reqHeader r) ''Authorization'')"
      by (simp add: Header_Get_def)
    then show "challenge401 (wrapBasicAuth e handler cred w r)"
      using fresh by (simp add: wrap_no_space reject_challenge)
  qed
  moreover have "?other"
  proof
    assume no: "\<not> (\<exists>scheme payload. hdr = scheme @ '' '' @ payload \<and> CHR '' '' \<notin> set scheme
               \<and> ToLower e scheme = ''basic'')"
    from first_split_exists [of "CHR '' ''" hdr]
    show "challenge401 (wrapBasicAuth e handler cred w r)"
    proof
      assume "CHR '' '' \<notin> set hdr"
      then show ?thesis
        using fresh unfolding hdr by (simp add: wrap_no_space reject_challenge)
    next
      assume "\<exists>a b. hdr = a @ CHR '' '' # b \<and> CHR '' '' \<notin> set a"
      then obtain a b where ab: "hdr = a @ CHR '' '' # b" "CHR '' '' \<notin> set a"
        by blast
      with no have "ToLower e a \<noteq> ''basic''"
        by auto
      then show ?thesis
        using fresh wrap_split [OF ab [unfolded hdr]] by (simp add: reject_challenge)
    qed
  qed
  moreover have "?basic"
  proof (intro allI impI)
    fix scheme payload
    assume a: "hdr = scheme @ '' '' @ payload" "CHR '' '' \<notin> set scheme"
      "ToLower e scheme = ''basic''"
    from a(1) have "Header_Get (reqHeader r) ''Authorization'' = scheme @ CHR '' '' # payload"
      unfolding hdr by simp
    from wrap_split [OF this a(2)] a(3) fresh
    show "case DecodeString payload of
             None \<Rightarrow>
               respStatus (wrapBasicAuth e handler cred w r) = Some 500
               \<and> respHeader (wrapBasicAuth e handler cred w r) ''WWW-Authenticate''
                   = respHeader w ''WWW-Authenticate''
           | Some p \<Rightarrow>
               (p \<noteq> cred \<longrightarrow> challenge401 (wrapBasicAuth e handler cred w r))
               \<and> (p = cred \<longrightarrow> wrapBasicAuth e handler cred w r = handler w r)"
      by (auto simp: wrap_500 reject_challenge split: option.splits)
  qed
  moreover have "?run"
    by (blast intro: Run_siteHandler)
  ultimately show ?thesis by blast
qed

lemma example_writer:
  "respStatus newResponseWriter = None"
  "Header_Get (reqHeader (example_request a)) ''Authorization'' = a"
  by (simp_all add: newResponseWriter_def example_request_def Header_Get_def)

lemma example_b64val:
  "b64val (CHR ''d'') = Some 29" "b64val (CHR ''T'') = Some 19"
  "b64val (CHR ''p'') = Some 41" "b64val (CHR ''w'') = Some 48"
  "b64val (CHR ''!'') = None"
  by (simp_all add: b64val_def)

lemma example_quantum: "quantum 3 29 19 41 48 = ''u:p''"
  by (simp add: quantum_def char_of_def bit_Suc_0_iff)

lemma example_token:
  "ToLower example_env ''Basic'' = ''basic''"
  "DecodeString ''dTpw'' = Some ''u:p''"
  "DecodeString ''!!!'' = None"
proof -
  show "ToLower example_env ''Basic'' = ''basic''"
    by code_simp
  show "DecodeString ''dTpw'' = Some ''u:p''"
    by (simp add: DecodeString_def example_b64val example_quantum)
  show "DecodeString ''!!!'' = None"
    by (simp add: DecodeString_def)
qed

text \<open>
  Against claim C1: the header \<^verbatim>\<open>Basic !!!\<close> is malformed, its payload not being base64;
  the request is answered with status 500 and without a challenge header, not with 401.
\<close>

theorem undecodable_payload_counterexample:
  "DecodeString ''!!!'' = None
   \<and> respStatus
        (wrapBasicAuth example_env (muxServe example_env []) ''u:p'' newResponseWriter
           (example_request ''Basic !!!'')) = Some 500
   \<and> \<not> challenge401
        (wrapBasicAuth example_env (muxServe example_env []) ''u:p'' newResponseWriter
           (example_request ''Basic !!!''))"
proof -
  have "wrapBasicAuth example_env (muxServe example_env []) ''u:p'' newResponseWriter
           (example_request ''Basic !!!'')
        = http_Error newResponseWriter ''Internal Server Error'' 500"
    using wrap_split [of "example_request ''Basic !!!''" "''Basic''" "''!!!''" example_env]
    by (simp add: example_writer example_token)
  then show ?thesis
    by (simp add: example_token challenge401_def http_Error_status example_writer)
qed

theorem wrapBasicAuth_decision_witness:
  "wrapBasicAuth example_env (muxServe example_env []) ''u:p'' newResponseWriter
     (example_request ''Basic dTpw'')
   = muxServe example_env [] newResponseWriter (example_request ''Basic dTpw'')"
proof -
  have "\<exists>scheme payload. ''Basic dTpw'' = scheme @ '' '' @ payload \<and> CHR '' '' \<notin> set scheme
           \<and> ToLower example_env scheme = ''basic'' \<and> DecodeString payload = Some ''u:p''"
    by (rule exI [of _ "''Basic''"], rule exI [of _ "''dTpw''"]) (simp add: example_token)
  then have "\<forall>handler. wrapBasicAuth example_env handler ''u:p'' newResponseWriter
          (example_request ''Basic dTpw'')
        = handler newResponseWriter (example_request ''Basic dTpw'')"
    by (rule wrapBasicAuth_decision [OF example_writer, THEN conjunct1, THEN iffD2])
  then show ?thesis by (rule spec)
qed

end
